theory Spec2Isabelle
  imports Complex_Main
begin

section \<open>The program\<close>

text \<open>
  A snowfall in WebGL on top of three.js: a script that builds a scene of two
  particle systems (snow and sprites), a vertex and a fragment shader. The sources
  hold the script twice, once plain and once with a statistics overlay and a control
  panel. The model follows the second. The first has the same \<^verbatim>\<open>render\<close>,
  \<^verbatim>\<open>newParticleSystem\<close>, \<^verbatim>\<open>newParticleMaterial\<close> and \<^verbatim>\<open>onWindowResize\<close> but
  for the place where the scale attribute is marked for upload (in
  \<^verbatim>\<open>newParticleSystem\<close> instead of \<^verbatim>\<open>onWindowResize\<close>), which changes the
  version of that attribute and nothing else, and it has no panel, hence no rebuild.
\<close>

section \<open>JavaScript numbers and the library functions the script calls\<close>

text \<open>
  A JavaScript Number is modelled as a real number: the arithmetic of the script is
  read as exact arithmetic, and the rounding of IEEE-754 doubles and of the 32-bit
  floats of a typed array is left out of the model. Memory is unbounded: an
  allocation fails only where the language says so for every engine.
\<close>

datatype error = RangeError | TypeError

text \<open>
  \<^verbatim>\<open>Math.round(x)\<close>: the nearest integer, a tie going to the larger one.
\<close>

definition Math_round :: "real \<Rightarrow> int" where
  "Math_round x = \<lfloor>x + 1 / 2\<rfloor>"

text \<open>
  \<^verbatim>\<open>new Float32Array(length)\<close> for an integral length: a negative length raises
  RangeError, any other gives that many zeros. \<^verbatim>\<open>fill(v)\<close> overwrites every slot.
\<close>

definition Float32Array :: "int \<Rightarrow> error + real list" where
  "Float32Array len = (if len < 0 then Inl RangeError else Inr (replicate (nat len) 0))"

definition fill :: "real list \<Rightarrow> real \<Rightarrow> real list" where
  "fill a v = map (\<lambda>_. v) a"

text \<open>
  The two samplers of three.js (\<^verbatim>\<open>THREE.MathUtils\<close>, r144), with the value that
  \<^verbatim>\<open>Math.random()\<close> returns, a number \<open>u\<close> with \<open>0 \<le> u < 1\<close>, as an argument:
  \<^verbatim>\<open>randFloat(low, high) = low + Math.random() * (high - low)\<close> and
  \<^verbatim>\<open>randFloatSpread(range) = range * (0.5 - Math.random())\<close>.
\<close>

definition randFloat :: "real \<Rightarrow> real \<Rightarrow> real \<Rightarrow> real" where
  "randFloat low high u = low + u * (high - low)"

definition randFloatSpread :: "real \<Rightarrow> real \<Rightarrow> real" where
  "randFloatSpread r u = r * (0.5 - u)"

text \<open>
  \<^verbatim>\<open>Math.random\<close> is a generator with hidden state. The model fixes the sequence
  of numbers it is going to return (\<open>random\<close>, below) and counts the draws made so far.
\<close>

type_synonym rng = "nat \<Rightarrow> real"


section \<open>The options of the script\<close>

record options =
  backgroundColor :: string
  fog :: bool
  fogRange :: real
  particleCount :: real
  ratio :: real
  snowSize :: real
  spriteSize :: real
  sizeAttenuation :: bool
  alphaTest :: real
  cameraPositionZ :: real
  rangeX :: real
  rangeY :: real
  rangeZ :: real
  velocityY :: real
  amplitudeX :: real
  angleX :: real
  snowSpritePath :: string
  spritePath :: string

definition default_options :: options where
  "default_options =
     \<lparr>backgroundColor = ''#0A0E10'', fog = True, fogRange = 80, particleCount = 2000,
      ratio = 0.05, snowSize = 2, spriteSize = 3, sizeAttenuation = True,
      alphaTest = 0.85, cameraPositionZ = 100, rangeX = 400, rangeY = 400,
      rangeZ = 100, velocityY = 2, amplitudeX = 4, angleX = 0,
      snowSpritePath = ''./textures/snow.png'',
      spritePath = ''./textures/OCTad_Xmas.png''\<rparr>"

section \<open>The loop of newParticleSystem\<close>

text \<open>
  The four local arrays of \<^verbatim>\<open>newParticleSystem\<close> and the number of random draws
  made so far. The arrays \<^verbatim>\<open>velocityY\<close>, \<^verbatim>\<open>amplitudeX\<close> and \<^verbatim>\<open>angleX\<close> carry a
  suffix here, their names being fields of the options already.
\<close>

record arrays =
  position :: "real list"
  velocityY_arr :: "real list"
  amplitudeX_arr :: "real list"
  angleX_arr :: "real list"
  draws :: nat

text \<open>The inner loop over \<^verbatim>\<open>posOptions\<close>: one draw and one push per axis.\<close>

fun push_positions :: "rng \<Rightarrow> real list \<Rightarrow> real list \<times> nat \<Rightarrow> real list \<times> nat" where
  "push_positions rnd [] (pos, k) = (pos, k)"
| "push_positions rnd (r # posOptions) (pos, k) =
     push_positions rnd posOptions (pos @ [randFloatSpread r (rnd k)], Suc k)"

text \<open>One pass of the outer loop: three positions, then velocity, amplitude and angle.\<close>

definition particle :: "options \<Rightarrow> rng \<Rightarrow> arrays \<Rightarrow> arrays" where
  "particle opts rnd st =
     (let posOptions = [rangeX opts, rangeY opts, rangeZ opts];
          (pos, k) = push_positions rnd posOptions (position st, draws st);
          vY = randFloat (- velocityY opts - 1) (min (- velocityY opts + 1) 0) (rnd k);
          aX = randFloat (max (amplitudeX opts - 1) 0) (amplitudeX opts + 1) (rnd (k + 1));
          a = randFloat (angleX opts - 0.1) (angleX opts + 0.1) (rnd (k + 2))
      in \<lparr>position = pos,
          velocityY_arr = velocityY_arr st @ [vY],
          amplitudeX_arr = amplitudeX_arr st @ [aX],
          angleX_arr = angleX_arr st @ [a],
          draws = k + 3\<rparr>)"

text \<open>\<^verbatim>\<open>for (let i = 0; i < particleCount; i++)\<close>, from the current \<open>i\<close>, with \<open>n\<close> for
  the parameter \<^verbatim>\<open>particleCount\<close> (a field of the options under that name).\<close>

function particles :: "options \<Rightarrow> rng \<Rightarrow> int \<Rightarrow> int \<Rightarrow> arrays \<Rightarrow> arrays" where
  "particles opts rnd n i st =
     (if i < n then particles opts rnd n (i + 1) (particle opts rnd st) else st)"
  by pat_completeness auto
termination
  by (relation "measure (\<lambda>(opts, rnd, n, i, st). nat (n - i))") auto

declare particles.simps [simp del]

section \<open>Buffer attributes, geometries, materials and the global state\<close>

text \<open>
  A buffer attribute of three.js: the typed array, the item size, the count
  (\<^verbatim>\<open>array.length / itemSize\<close>, here the integer quotient: the item size divides
  the length of every array this script builds) and the version, which the setter
  \<^verbatim>\<open>needsUpdate = true\<close> increments.
\<close>

record BufferAttribute =
  array :: "real list"
  itemSize :: nat
  count :: nat
  version :: nat

definition Float32BufferAttribute :: "real list \<Rightarrow> nat \<Rightarrow> BufferAttribute" where
  "Float32BufferAttribute a n = \<lparr>array = a, itemSize = n, count = length a div n, version = 0\<rparr>"

definition needsUpdate :: "BufferAttribute \<Rightarrow> BufferAttribute" where
  "needsUpdate a = a\<lparr>version := version a + 1\<rparr>"

text \<open>A buffer geometry is its dictionary of named attributes.\<close>

record BufferGeometry =
  attributes :: "string \<rightharpoonup> BufferAttribute"

definition setAttribute :: "BufferGeometry \<Rightarrow> string \<Rightarrow> BufferAttribute \<Rightarrow> BufferGeometry" where
  "setAttribute g name a = g\<lparr>attributes := (attributes g)(name \<mapsto> a)\<rparr>"

definition getAttribute :: "BufferGeometry \<Rightarrow> string \<Rightarrow> BufferAttribute option" where
  "getAttribute g name = attributes g name"

text \<open>
  The shader material that \<^verbatim>\<open>newParticleMaterial\<close> builds: the five uniforms of
  the script (the fields \<open>u_size\<close>, \<open>u_rangeY\<close>, \<open>u_map\<close> and \<open>u_alphaTest\<close> are the
  uniforms \<^verbatim>\<open>size\<close>, \<^verbatim>\<open>rangeY\<close>, \<^verbatim>\<open>map\<close> and \<^verbatim>\<open>alphaTest\<close>; a texture is
  named by its path, and is absent while the variable holding it is undefined), the define and the two flags.
\<close>

record ShaderMaterial =
  uTime :: real
  u_size :: real
  u_rangeY :: real
  u_map :: "string option"
  u_alphaTest :: real
  USE_SIZEATTENUATION :: bool
  transparent :: bool
  m_fog :: bool

text \<open>
  Objects live in a store and are named by their addresses: a material is shared
  between a global variable and the particle systems built with it, and a geometry is
  changed through the particle system that holds it.
\<close>

record Points =
  geometry :: nat
  material :: nat

datatype resource = Geometry nat | Material nat

text \<open>
  The global variables of the script and the objects they reach: the options, the
  viewport copy and the scale, the scene (children, background, fog), the camera,
  the renderer's size (absent until \<^verbatim>\<open>setSize\<close> is called), whether the resize
  listener and the control panel are installed, the textures and materials, the
  store, the next free address, the resources disposed so far (latest last),
  whether an animation frame is requested, and the random generator.
\<close>

record world =
  options :: options
  windowWidth :: real
  windowHeight :: real
  scale :: real
  children :: "Points list"
  background :: "string option"
  scene_fog :: "(string \<times> real \<times> real) option"
  camera_aspect :: real
  camera_z :: real
  renderer_size :: "(real \<times> real) option"
  resize_listener :: bool
  gui :: bool
  snowSprite :: "string option"
  sprite :: "string option"
  snowMat :: "nat option"
  spriteMat :: "nat option"
  geometries :: "nat \<rightharpoonup> BufferGeometry"
  materials :: "nat \<rightharpoonup> ShaderMaterial"
  fresh :: nat
  disposed :: "resource list"
  frame_requested :: bool
  Math_random :: rng
  drawn :: nat

section \<open>newParticleSystem and newParticleMaterial\<close>

definition newParticleSystem :: "nat \<Rightarrow> int \<Rightarrow> world \<Rightarrow> error + Points \<times> world" where
  "newParticleSystem mat n w =
     (case Float32Array n of
        Inl e \<Rightarrow> Inl e
      | Inr zeros \<Rightarrow>
          (let scales = fill zeros (scale w);
               st = particles (options w) (Math_random w) n 0
                      \<lparr>position = [], velocityY_arr = [], amplitudeX_arr = [],
                       angleX_arr = [], draws = drawn w\<rparr>;
               g0 = \<lparr>attributes = Map.empty\<rparr>;
               g1 = setAttribute g0 ''position'' (Float32BufferAttribute (position st) 3);
               g2 = setAttribute g1 ''scale'' (Float32BufferAttribute scales 1);
               g3 = setAttribute g2 ''velocityY'' (Float32BufferAttribute (velocityY_arr st) 1);
               g4 = setAttribute g3 ''amplitudeX'' (Float32BufferAttribute (amplitudeX_arr st) 1);
               g5 = setAttribute g4 ''angle'' (Float32BufferAttribute (angleX_arr st) 1);
               bufferGeometry = fresh w
           in Inr (\<lparr>geometry = bufferGeometry, material = mat\<rparr>,
                   w\<lparr>geometries := (geometries w)(bufferGeometry \<mapsto> g5),
                     fresh := Suc bufferGeometry,
                     drawn := draws st\<rparr>)))"

definition newParticleMaterial :: "real \<Rightarrow> string option \<Rightarrow> world \<Rightarrow> nat \<times> world" where
  "newParticleMaterial sz tex w =
     (let m = fresh w
      in (m, w\<lparr>materials := (materials w)(m \<mapsto>
                 \<lparr>uTime = 0, u_size = sz, u_rangeY = rangeY (options w), u_map = tex,
                  u_alphaTest = alphaTest (options w),
                  USE_SIZEATTENUATION = sizeAttenuation (options w),
                  transparent = True, m_fog = fog (options w)\<rparr>),
               fresh := Suc m\<rparr>))"

section \<open>The scene: render, tick, remakeSystem, updateSprite, onWindowResize\<close>

text \<open>
  A function that can throw after it has changed the state returns either the final
  state or the exception together with the state it leaves behind.
\<close>

type_synonym outcome = "error \<times> world + world"

text \<open>
  \<^verbatim>\<open>scene.add\<close> of an object that has no parent appends it to the children;
  \<^verbatim>\<open>scene.remove\<close> deletes the first occurrence; \<^verbatim>\<open>dispose()\<close> is recorded.
\<close>

definition add :: "Points \<Rightarrow> world \<Rightarrow> world" where
  "add p w = w\<lparr>children := children w @ [p]\<rparr>"

definition remove :: "Points \<Rightarrow> world \<Rightarrow> world" where
  "remove p w = w\<lparr>children := remove1 p (children w)\<rparr>"

definition dispose :: "resource \<Rightarrow> world \<Rightarrow> world" where
  "dispose r w = w\<lparr>disposed := disposed w @ [r]\<rparr>"

text \<open>An assignment to a field of the material at an address.\<close>

definition update_material :: "nat \<Rightarrow> (ShaderMaterial \<Rightarrow> ShaderMaterial) \<Rightarrow> world \<Rightarrow> world" where
  "update_material a f w = w\<lparr>materials := (materials w)(a := map_option f (materials w a))\<rparr>"

text \<open>
  One run of \<^verbatim>\<open>tick\<close> at the elapsed time \<open>t\<close>: both time uniforms, then the
  request of the next frame. Reading a property of an undefined variable throws.
\<close>

definition tick :: "real \<Rightarrow> world \<Rightarrow> outcome" where
  "tick t w =
     (case snowMat w of
        None \<Rightarrow> Inl (TypeError, w)
      | Some sm \<Rightarrow>
          (let w1 = update_material sm (\<lambda>m. m\<lparr>uTime := t\<rparr>) w
           in case spriteMat w1 of
                None \<Rightarrow> Inl (TypeError, w1)
              | Some pm \<Rightarrow>
                  (let w2 = update_material pm (\<lambda>m. m\<lparr>uTime := t\<rparr>) w1
                   in Inr (w2\<lparr>frame_requested := True\<rparr>))))"

text \<open>
  \<^verbatim>\<open>render\<close>. The clock starts at the first call of \<^verbatim>\<open>getElapsedTime\<close>, which
  returns 0, so the first tick runs at time 0.
\<close>

definition render :: "world \<Rightarrow> outcome" where
  "render w =
     (let opts = options w;
          w1 = w\<lparr>background := Some (backgroundColor opts)\<rparr>;
          w2 = (if fog opts
                then w1\<lparr>scene_fog := Some (backgroundColor opts, fogRange opts, fogRange opts * 2)\<rparr>
                else w1);
          w3 = w2\<lparr>camera_z := cameraPositionZ opts\<rparr>;
          w4 = w3\<lparr>snowSprite := Some (snowSpritePath opts), sprite := Some (spritePath opts)\<rparr>;
          (sm, w5) = newParticleMaterial (snowSize opts) (snowSprite w4) w4;
          w6 = w5\<lparr>snowMat := Some sm\<rparr>;
          (pm, w7) = newParticleMaterial (spriteSize opts) (sprite w6) w6;
          w8 = w7\<lparr>spriteMat := Some pm\<rparr>
      in case newParticleSystem sm (Math_round (particleCount opts * (1.0 - ratio opts))) w8 of
           Inl e \<Rightarrow> Inl (e, w8)
         | Inr (snowParticleSystem, w9) \<Rightarrow>
             (case newParticleSystem pm (Math_round (particleCount opts * ratio opts)) w9 of
                Inl e \<Rightarrow> Inl (e, w9)
              | Inr (spriteParticleSystem, w10) \<Rightarrow>
                  tick 0 (add spriteParticleSystem (add snowParticleSystem w10))))"

text \<open>The \<^verbatim>\<open>while\<close> loop of \<^verbatim>\<open>remakeSystem\<close>.\<close>

function remove_children :: "world \<Rightarrow> world" where
  "remove_children w =
     (case children w of
        [] \<Rightarrow> w
      | child # _ \<Rightarrow>
          remove_children
            (dispose (Material (material child))
              (dispose (Geometry (geometry child)) (remove child w))))"
  by pat_completeness auto
termination
  by (relation "measure (\<lambda>w. length (children w))") (auto simp: remove_def dispose_def)

declare remove_children.simps [simp del]

definition remakeSystem :: "world \<Rightarrow> outcome" where
  "remakeSystem w0 =
     (let w = remove_children w0;
          opts = options w
      in case snowMat w of
           None \<Rightarrow> Inl (TypeError, w)
         | Some sm \<Rightarrow>
             (let w1 = update_material sm (\<lambda>m. m\<lparr>u_rangeY := rangeY opts\<rparr>) w
              in case spriteMat w1 of
                   None \<Rightarrow> Inl (TypeError, w1)
                 | Some pm \<Rightarrow>
                     (let w2 = update_material pm (\<lambda>m. m\<lparr>u_rangeY := rangeY opts\<rparr>) w1
                      in case newParticleSystem sm
                                (Math_round (particleCount opts * (1.0 - ratio opts))) w2 of
                           Inl e \<Rightarrow> Inl (e, w2)
                         | Inr (p1, w3) \<Rightarrow>
                             (let w4 = add p1 w3
                              in case newParticleSystem pm
                                        (Math_round (particleCount opts * ratio opts)) w4 of
                                   Inl e \<Rightarrow> Inl (e, w4)
                                 | Inr (p2, w5) \<Rightarrow> Inr (add p2 w5)))))"

definition updateSprite :: "world \<Rightarrow> outcome" where
  "updateSprite w =
     (let opts = options w;
          (sm, w1) = newParticleMaterial (snowSize opts) (snowSprite w) w;
          w2 = w1\<lparr>snowMat := Some sm\<rparr>;
          (pm, w3) = newParticleMaterial (spriteSize opts) (sprite w2) w2
      in remakeSystem (w3\<lparr>spriteMat := Some pm\<rparr>))"

text \<open>
  The body of the loop of \<^verbatim>\<open>onWindowResize\<close> for one child: a fresh scale
  attribute of as many slots as the position attribute counts, filled with the
  scale and marked for upload.
\<close>

definition rescale :: "Points \<Rightarrow> world \<Rightarrow> outcome" where
  "rescale child w =
     (case geometries w (geometry child) of
        None \<Rightarrow> Inl (TypeError, w)
      | Some g \<Rightarrow>
          (case getAttribute g ''position'' of
             None \<Rightarrow> Inl (TypeError, w)
           | Some pos \<Rightarrow>
               (case Float32Array (int (count pos)) of
                  Inl e \<Rightarrow> Inl (e, w)
                | Inr zeros \<Rightarrow>
                    (let scales = fill zeros (scale w);
                         g' = setAttribute g ''scale''
                                (needsUpdate (Float32BufferAttribute scales 1))
                     in Inr (w\<lparr>geometries := (geometries w)(geometry child \<mapsto> g')\<rparr>)))))"

text \<open>
  \<^verbatim>\<open>for (let i = 0; i < scene.children.length; i++)\<close>: the body does not change
  the list of children, so the loop visits the children in order.
\<close>

fun rescale_children :: "Points list \<Rightarrow> world \<Rightarrow> outcome" where
  "rescale_children [] w = Inr w"
| "rescale_children (child # rest) w =
     (case rescale child w of Inl x \<Rightarrow> Inl x | Inr w' \<Rightarrow> rescale_children rest w')"

text \<open>\<^verbatim>\<open>onWindowResize\<close>, with the width and the height of the visual viewport.\<close>

definition onWindowResize :: "real \<Rightarrow> real \<Rightarrow> world \<Rightarrow> outcome" where
  "onWindowResize vw vh w0 =
     (let w = w0\<lparr>windowWidth := vw, windowHeight := vh\<rparr>;
          w1 = w\<lparr>scale := windowHeight w\<rparr>
      in case rescale_children (children w1) w1 of
           Inl x \<Rightarrow> Inl x
         | Inr w2 \<Rightarrow>
             Inr (w2\<lparr>camera_aspect := windowWidth w2 / windowHeight w2,
                     renderer_size := Some (windowWidth w2, windowHeight w2)\<rparr>))"

section \<open>The control panel\<close>

text \<open>
  A change made in the control panel: the control and the value the panel delivers.
  The panel stores the value in the options and then calls the handler of the control.
\<close>

datatype change =
    BackgroundColor string | Fog bool | FogRange real | CameraPositionZ real
  | ParticleCount real | RangeX real | RangeY real | RangeZ real
  | VelocityY real | AmplitudeX real | AngleX real
  | Ratio real | SnowSize real | SpriteSize real

definition set_options :: "(options \<Rightarrow> options) \<Rightarrow> world \<Rightarrow> world" where
  "set_options f w = w\<lparr>options := f (options w)\<rparr>"

fun onChange :: "change \<Rightarrow> world \<Rightarrow> outcome" where
  "onChange (BackgroundColor v) w0 =
     (let w = set_options (\<lambda>opts. opts\<lparr>backgroundColor := v\<rparr>) w0;
          w1 = w\<lparr>background := Some v\<rparr>
      in Inr (if fog (options w1)
              then w1\<lparr>scene_fog := Some (v, fogRange (options w1), fogRange (options w1) * 2)\<rparr>
              else w1))"
| "onChange (Fog v) w0 =
     (let w = set_options (\<lambda>opts. opts\<lparr>fog := v\<rparr>) w0
      in Inr (if v
              then w\<lparr>scene_fog := Some (backgroundColor (options w), fogRange (options w),
                                         fogRange (options w) * 2)\<rparr>
              else w\<lparr>scene_fog := None\<rparr>))"
| "onChange (FogRange v) w0 =
     (let w = set_options (\<lambda>opts. opts\<lparr>fogRange := v\<rparr>) w0
      in Inr (if fog (options w)
              then w\<lparr>scene_fog := Some (backgroundColor (options w), v, v * 2)\<rparr>
              else w\<lparr>scene_fog := None\<rparr>))"
| "onChange (CameraPositionZ v) w0 =
     (let w = set_options (\<lambda>opts. opts\<lparr>cameraPositionZ := v\<rparr>) w0
      in Inr (w\<lparr>camera_z := v\<rparr>))"
| "onChange (ParticleCount v) w = remakeSystem (set_options (\<lambda>opts. opts\<lparr>particleCount := v\<rparr>) w)"
| "onChange (RangeX v) w = remakeSystem (set_options (\<lambda>opts. opts\<lparr>rangeX := v\<rparr>) w)"
| "onChange (RangeY v) w = remakeSystem (set_options (\<lambda>opts. opts\<lparr>rangeY := v\<rparr>) w)"
| "onChange (RangeZ v) w = remakeSystem (set_options (\<lambda>opts. opts\<lparr>rangeZ := v\<rparr>) w)"
| "onChange (VelocityY v) w = remakeSystem (set_options (\<lambda>opts. opts\<lparr>velocityY := v\<rparr>) w)"
| "onChange (AmplitudeX v) w = remakeSystem (set_options (\<lambda>opts. opts\<lparr>amplitudeX := v\<rparr>) w)"
| "onChange (AngleX v) w = remakeSystem (set_options (\<lambda>opts. opts\<lparr>angleX := v\<rparr>) w)"
| "onChange (Ratio v) w = updateSprite (set_options (\<lambda>opts. opts\<lparr>ratio := v\<rparr>) w)"
| "onChange (SnowSize v) w = updateSprite (set_options (\<lambda>opts. opts\<lparr>snowSize := v\<rparr>) w)"
| "onChange (SpriteSize v) w = updateSprite (set_options (\<lambda>opts. opts\<lparr>spriteSize := v\<rparr>) w)"

section \<open>The script: the capability check, init and the first render\<close>

text \<open>
  The part of the document the script touches: the children of the element with the
  id \<^verbatim>\<open>container\<close> (absent when the document has no such element), the children
  of the body, and the global variables of the script, absent as long as the
  variables \<^verbatim>\<open>scene\<close>, \<^verbatim>\<open>camera\<close> and \<^verbatim>\<open>renderer\<close> are undefined.
\<close>

datatype element = WebGLErrorMessage | StatsDom | RendererCanvas

record page =
  container :: "element list option"
  body :: "element list"
  app :: "world option"

text \<open>
  The variables as the first branch of the script declares them, for the options
  \<open>opts\<close>, a visual viewport of \<open>vw\<close> by \<open>vh\<close> and the random generator \<open>rnd\<close>.
\<close>

definition globals :: "options \<Rightarrow> real \<Rightarrow> real \<Rightarrow> rng \<Rightarrow> world" where
  "globals opts vw vh rnd =
     \<lparr>options = opts, windowWidth = vw, windowHeight = vh, scale = vh, children = [],
      background = None, scene_fog = None, camera_aspect = vw / vh, camera_z = 0,
      renderer_size = None, resize_listener = False, gui = False,
      snowSprite = None, sprite = None, snowMat = None, spriteMat = None,
      geometries = Map.empty, materials = Map.empty, fresh = 0, disposed = [],
      frame_requested = False, Math_random = rnd, drawn = 0\<rparr>"

definition init :: "page \<Rightarrow> world \<Rightarrow> page \<times> world" where
  "init pg w =
     (pg\<lparr>body := body pg @ [RendererCanvas]\<rparr>,
      w\<lparr>renderer_size := Some (windowWidth w, windowHeight w),
        resize_listener := True, gui := True\<rparr>)"

text \<open>
  The script, given the answer of \<^verbatim>\<open>WebGL.isWebGLAvailable()\<close>. An exception is
  returned with the page it leaves behind.
\<close>

definition script :: "bool \<Rightarrow> options \<Rightarrow> real \<Rightarrow> real \<Rightarrow> rng \<Rightarrow> page \<Rightarrow> error \<times> page + page" where
  "script isWebGLAvailable opts vw vh rnd pg =
     (if isWebGLAvailable
      then (let w = globals opts vw vh rnd;
                pg1 = pg\<lparr>body := body pg @ [StatsDom]\<rparr>;
                (pg2, w1) = init pg1 w
            in case render w1 of
                 Inl (e, w') \<Rightarrow> Inl (e, pg2\<lparr>app := Some w'\<rparr>)
               | Inr w' \<Rightarrow> Inr (pg2\<lparr>app := Some w'\<rparr>))
      else (case container pg of
              None \<Rightarrow> Inl (TypeError, pg)
            | Some els \<Rightarrow> Inr (pg\<lparr>container := Some (els @ [WebGLErrorMessage])\<rparr>)))"

section \<open>The shaders\<close>

type_synonym vec2 = "real \<times> real"
type_synonym vec3 = "real \<times> real \<times> real"
type_synonym vec4 = "real \<times> real \<times> real \<times> real"

text \<open>A matrix is its four columns; \<^verbatim>\<open>m[c][r]\<close> is row \<open>r\<close> of column \<open>c\<close>.\<close>

type_synonym mat4 = "vec4 \<times> vec4 \<times> vec4 \<times> vec4"

definition mat4_times :: "mat4 \<Rightarrow> vec4 \<Rightarrow> vec4" where
  "mat4_times m v =
     (case m of ((a0, a1, a2, a3), (b0, b1, b2, b3), (c0, c1, c2, c3), (d0, d1, d2, d3)) \<Rightarrow>
      case v of (v0, v1, v2, v3) \<Rightarrow>
        (a0 * v0 + b0 * v1 + c0 * v2 + d0 * v3,
         a1 * v0 + b1 * v1 + c1 * v2 + d1 * v3,
         a2 * v0 + b2 * v1 + c2 * v2 + d2 * v3,
         a3 * v0 + b3 * v1 + c3 * v2 + d3 * v3))"

definition isPerspectiveMatrix :: "mat4 \<Rightarrow> bool" where
  "isPerspectiveMatrix m = (case m of (c0, c1, (m20, m21, m22, m23), c3) \<Rightarrow> m23 = - 1)"

text \<open>The built-in \<^verbatim>\<open>mod(x, y)\<close> of GLSL: \<^verbatim>\<open>x - y * floor(x / y)\<close>.\<close>

definition mod_glsl :: "real \<Rightarrow> real \<Rightarrow> real" where
  "mod_glsl a b = a - b * of_int \<lfloor>a / b\<rfloor>"

text \<open>
  The displaced position \<^verbatim>\<open>newPos\<close> of the vertex shader. The uniforms and
  attributes carry a prime where their names are fields of the records above, and
  \<open>use_sizeattenuation\<close> below says whether \<^verbatim>\<open>USE_SIZEATTENUATION\<close> is defined.
\<close>

definition newPos :: "real \<Rightarrow> real \<Rightarrow> vec3 \<Rightarrow> real \<Rightarrow> real \<Rightarrow> real \<Rightarrow> vec3" where
  "newPos uTime' rangeY' pos velocityY' amplitudeX' angle =
     (case pos of (px, py, pz) \<Rightarrow>
        (px + sin (uTime' * angle) * cos (uTime' * 2 * angle) * (amplitudeX' * 10),
         mod_glsl (py - (uTime' * - velocityY' * 10)) rangeY' - rangeY' / 2,
         pz))"

text \<open>
  \<^verbatim>\<open>main\<close> of the vertex shader: \<^verbatim>\<open>gl_Position\<close> and \<^verbatim>\<open>gl_PointSize\<close>. The
  product \<^verbatim>\<open>projectionMatrix * modelViewMatrix * vec4(newPos, 1.0)\<close> is computed
  from the right, which gives the same vector. The fog chunks of three.js are not
  part of the model.
\<close>

definition vertex_main ::
  "mat4 \<Rightarrow> mat4 \<Rightarrow> bool \<Rightarrow> real \<Rightarrow> real \<Rightarrow> real \<Rightarrow> vec3 \<Rightarrow> real \<Rightarrow> real \<Rightarrow> real \<Rightarrow> real \<Rightarrow> vec4 \<times> real" where
  "vertex_main projectionMatrix modelViewMatrix use_sizeattenuation uTime' size' rangeY'
       pos scale' velocityY' amplitudeX' angle =
     (case pos of (px, py, pz) \<Rightarrow>
      let mvPosition = mat4_times modelViewMatrix (px, py, pz, 1);
          (nx, ny, nz) = newPos uTime' rangeY' pos velocityY' amplitudeX' angle;
          gl_Position = mat4_times projectionMatrix (mat4_times modelViewMatrix (nx, ny, nz, 1));
          gl_PointSize = size'
      in (gl_Position,
          if use_sizeattenuation \<and> isPerspectiveMatrix projectionMatrix
          then (case mvPosition of (mx, my, mz, mw) \<Rightarrow> gl_PointSize * (scale' / - mz))
          else gl_PointSize))"

text \<open>
  \<^verbatim>\<open>main\<close> of the fragment shader: the colour of the fragment, or nothing when the
  fragment is discarded. \<open>texture2D\<close> is the bound texture as a function of the
  coordinate, \<open>fog_fragment\<close> the fog chunk of three.js applied to the colour, and
  \<open>alpha\<close> the component \<^verbatim>\<open>.a\<close> of a colour.
\<close>

definition alpha :: "vec4 \<Rightarrow> real" where
  "alpha c = (case c of (r, g, b, a) \<Rightarrow> a)"

definition fragment_main :: "(vec2 \<Rightarrow> vec4) \<Rightarrow> real \<Rightarrow> vec2 \<Rightarrow> (vec4 \<Rightarrow> vec4) \<Rightarrow> vec4 option" where
  "fragment_main texture2D alphaTest' gl_PointCoord fog_fragment =
     (let gl_FragColor = texture2D gl_PointCoord
      in if alpha gl_FragColor < alphaTest' then None else Some (fog_fragment gl_FragColor))"

section \<open>Observations and closed forms used in the proofs\<close>

text \<open>
  The samples of the particle whose first draw has the index \<open>k\<close>: six draws, in the
  order of the loop body.
\<close>

definition sample_position :: "options \<Rightarrow> rng \<Rightarrow> nat \<Rightarrow> real list" where
  "sample_position opts rnd k =
     [randFloatSpread (rangeX opts) (rnd k), randFloatSpread (rangeY opts) (rnd (k + 1)),
      randFloatSpread (rangeZ opts) (rnd (k + 2))]"

definition sample_velocityY :: "options \<Rightarrow> rng \<Rightarrow> nat \<Rightarrow> real" where
  "sample_velocityY opts rnd k =
     randFloat (- velocityY opts - 1) (min (- velocityY opts + 1) 0) (rnd (k + 3))"

definition sample_amplitudeX :: "options \<Rightarrow> rng \<Rightarrow> nat \<Rightarrow> real" where
  "sample_amplitudeX opts rnd k =
     randFloat (max (amplitudeX opts - 1) 0) (amplitudeX opts + 1) (rnd (k + 4))"

definition sample_angle :: "options \<Rightarrow> rng \<Rightarrow> nat \<Rightarrow> real" where
  "sample_angle opts rnd k = randFloat (angleX opts - 0.1) (angleX opts + 0.1) (rnd (k + 5))"

text \<open>The arrays after \<open>m\<close> more passes of the loop.\<close>

definition generated :: "options \<Rightarrow> rng \<Rightarrow> arrays \<Rightarrow> nat \<Rightarrow> arrays" where
  "generated opts rnd st m =
     \<lparr>position = position st @ concat (map (\<lambda>j. sample_position opts rnd (draws st + 6 * j)) [0..<m]),
      velocityY_arr = velocityY_arr st @ map (\<lambda>j. sample_velocityY opts rnd (draws st + 6 * j)) [0..<m],
      amplitudeX_arr = amplitudeX_arr st @ map (\<lambda>j. sample_amplitudeX opts rnd (draws st + 6 * j)) [0..<m],
      angleX_arr = angleX_arr st @ map (\<lambda>j. sample_angle opts rnd (draws st + 6 * j)) [0..<m],
      draws = draws st + 6 * m\<rparr>"

text \<open>\<^verbatim>\<open>p.geometry.getAttribute(name)\<close> in the world \<open>w\<close>.\<close>

definition attribute :: "world \<Rightarrow> Points \<Rightarrow> string \<Rightarrow> BufferAttribute option" where
  "attribute w p name =
     (case geometries w (geometry p) of None \<Rightarrow> None | Some g \<Rightarrow> getAttribute g name)"

text \<open>
  The geometry that \<open>newParticleSystem\<close> builds for \<open>m\<close> particles from the options,
  the generator, the number of draws made before, and the scale.
\<close>

definition built :: "options \<Rightarrow> rng \<Rightarrow> nat \<Rightarrow> real \<Rightarrow> nat \<Rightarrow> BufferGeometry" where
  "built opts rnd d sc m =
     (let st = generated opts rnd
                 \<lparr>position = [], velocityY_arr = [], amplitudeX_arr = [], angleX_arr = [],
                  draws = d\<rparr> m
      in \<lparr>attributes =
            [''position'' \<mapsto> Float32BufferAttribute (position st) 3,
             ''scale'' \<mapsto> Float32BufferAttribute (replicate m sc) 1,
             ''velocityY'' \<mapsto> Float32BufferAttribute (velocityY_arr st) 1,
             ''amplitudeX'' \<mapsto> Float32BufferAttribute (amplitudeX_arr st) 1,
             ''angle'' \<mapsto> Float32BufferAttribute (angleX_arr st) 1]\<rparr>)"


text \<open>
  Three concrete worlds, as the script declares its variables on a viewport of 800 by
  600 with every draw equal to 1/2: with the default options, with velocity and
  amplitude set to -2, and with the ratio set to 3/2.
\<close>

definition demo :: world where
  "demo = globals default_options 800 600 (\<lambda>k. 1 / 2)"



text \<open>
  A document with an empty container element and an empty body, before the script
  has run, and the options of the end-to-end example: 100 particles at ratio 0.1.
\<close>

definition blank_page :: page where
  "blank_page = \<lparr>container = Some [], body = [], app = None\<rparr>"


text \<open>
  What the resize handler does to one geometry at the scale \<open>s\<close>, and the children
  it can handle: those whose geometry has a position attribute.
\<close>

definition rescaled :: "real \<Rightarrow> BufferGeometry \<Rightarrow> BufferGeometry" where
  "rescaled s g =
     (case attributes g ''position'' of
        None \<Rightarrow> g
      | Some pos \<Rightarrow>
          setAttribute g ''scale''
            (needsUpdate (Float32BufferAttribute (replicate (count pos) s) 1)))"

definition particle_system :: "world \<Rightarrow> Points \<Rightarrow> bool" where
  "particle_system w c = (attribute w c ''position'' \<noteq> None)"

text \<open>The world an outcome leaves behind.\<close>

definition after :: "outcome \<Rightarrow> world" where
  "after r = (case r of Inl (e, w) \<Rightarrow> w | Inr w \<Rightarrow> w)"

text \<open>
  The world after the script has rendered three particles at ratio 1/3 (two snow, one
  sprite) on a viewport of 800 by 600.
\<close>

definition three :: options where
  "three = default_options\<lparr>particleCount := 3, ratio := 1 / 3\<rparr>"

definition rendered :: world where
  "rendered = after (render (snd (init blank_page (globals three 800 600 (\<lambda>k. 1 / 2)))))"

text \<open>
  The resources the loop of \<open>remakeSystem\<close> disposes for a list of children, in
  order, and the worlds in which the addresses of the geometries in the scene and of
  the geometries disposed so far are below the next free address.
\<close>

definition disposals :: "Points list \<Rightarrow> resource list" where
  "disposals cs = concat (map (\<lambda>c. [Geometry (geometry c), Material (material c)]) cs)"

definition allocated :: "world \<Rightarrow> bool" where
  "allocated w =
     ((\<forall>c\<in>set (children w). geometry c < fresh w) \<and>
      (\<forall>a. Geometry a \<in> set (disposed w) \<longrightarrow> a < fresh w))"

text \<open>
  The invariant of the store: the addresses in use are allocated and every child of
  the scene is a particle system; a world is consistent when, besides, the two
  material variables are defined.
\<close>

definition store_ok :: "world \<Rightarrow> bool" where
  "store_ok w = (allocated w \<and> (\<forall>c\<in>set (children w). particle_system w c))"

definition consistent :: "world \<Rightarrow> bool" where
  "consistent w = (store_ok w \<and> snowMat w \<noteq> None \<and> spriteMat w \<noteq> None)"

text \<open>
  The worlds the page can be in once the first branch of the script has run: the one
  the first render leaves behind, and then the one any tick, resize or change in the
  control panel leaves behind, whether the handler returns or throws.
\<close>

inductive reachable :: "world \<Rightarrow> bool" where
  started: "reachable (after (render (snd (init pg (globals opts vw vh rnd)))))"
| ticked: "reachable w \<Longrightarrow> reachable (after (tick t w))"
| resized: "reachable w \<Longrightarrow> reachable (after (onWindowResize vw vh w))"
| changed: "reachable w \<Longrightarrow> reachable (after (onChange ch w))"

section \<open>Lemmas on the particle generator\<close>

lemma particle_eq:
  "particle opts rnd st =
     \<lparr>position = position st @ sample_position opts rnd (draws st),
      velocityY_arr = velocityY_arr st @ [sample_velocityY opts rnd (draws st)],
      amplitudeX_arr = amplitudeX_arr st @ [sample_amplitudeX opts rnd (draws st)],
      angleX_arr = angleX_arr st @ [sample_angle opts rnd (draws st)],
      draws = draws st + 6\<rparr>"
  by (simp add: particle_def sample_position_def sample_velocityY_def sample_amplitudeX_def
      sample_angle_def Let_def numeral_eq_Suc)

lemma generated_0: "generated opts rnd st 0 = st"
  by (simp add: generated_def)

lemma generated_Suc:
  "generated opts rnd st (Suc m) = generated opts rnd (particle opts rnd st) m"
  by (simp add: generated_def particle_eq upt_conv_Cons map_Suc_upt [symmetric] del: upt_Suc
      add: algebra_simps o_def)

lemma particles_generated:
  "particles opts rnd n i st = generated opts rnd st (nat (n - i))"
proof (induction opts rnd n i st rule: particles.induct)
  case (1 opts rnd n i st)
  show ?case
  proof (cases "i < n")
    case True
    then have "nat (n - i) = Suc (nat (n - (i + 1)))" by simp
    with True "1.IH" show ?thesis
      by (subst particles.simps) (simp add: generated_Suc)
  next
    case False
    then show ?thesis
      by (subst particles.simps) (simp add: generated_0)
  qed
qed

lemma newParticleSystem_Inr:
  assumes "0 \<le> n"
  shows "newParticleSystem mat n w =
           Inr (\<lparr>geometry = fresh w, material = mat\<rparr>,
                w\<lparr>geometries := (geometries w)(fresh w \<mapsto> built (options w) (Math_random w) (drawn w) (scale w) (nat n)),
                  fresh := Suc (fresh w),
                  drawn := drawn w + 6 * nat n\<rparr>)"
  using assms
  by (simp add: newParticleSystem_def Float32Array_def fill_def particles_generated
      built_def setAttribute_def Let_def generated_def)

lemma newParticleSystem_Inl: "n < 0 \<Longrightarrow> newParticleSystem mat n w = Inl RangeError"
  by (simp add: newParticleSystem_def Float32Array_def)


lemma concat_triples_length:
  assumes "\<And>k. length (f k) = 3"
  shows "length (concat (map f [0..<m])) = 3 * m"
  by (induction m) (simp_all add: assms)



lemma attribute_new:
  assumes "0 \<le> n"
  shows "\<exists>p w'. newParticleSystem mat n w = Inr (p, w') \<and>
           (\<forall>name. attribute w' p name = attributes (built (options w) (Math_random w) (drawn w) (scale w) (nat n)) name)"
  by (simp add: newParticleSystem_Inr [OF assms] attribute_def getAttribute_def)


lemma built_position:
  "attributes (built opts rnd d sc m) ''position'' =
     Some (Float32BufferAttribute
       (concat (map (\<lambda>j. sample_position opts rnd (d + 6 * j)) [0..<m])) 3)"
  by (simp add: built_def generated_def Let_def)

lemma built_scale:
  "attributes (built opts rnd d sc m) ''scale'' = Some (Float32BufferAttribute (replicate m sc) 1)"
  by (simp add: built_def generated_def Let_def)

lemma built_velocityY:
  "attributes (built opts rnd d sc m) ''velocityY'' =
     Some (Float32BufferAttribute
       (map (\<lambda>j. sample_velocityY opts rnd (d + 6 * j)) [0..<m]) 1)"
  by (simp add: built_def generated_def Let_def)

lemma built_amplitudeX:
  "attributes (built opts rnd d sc m) ''amplitudeX'' =
     Some (Float32BufferAttribute
       (map (\<lambda>j. sample_amplitudeX opts rnd (d + 6 * j)) [0..<m]) 1)"
  by (simp add: built_def generated_def Let_def)

lemma built_angle:
  "attributes (built opts rnd d sc m) ''angle'' =
     Some (Float32BufferAttribute
       (map (\<lambda>j. sample_angle opts rnd (d + 6 * j)) [0..<m]) 1)"
  by (simp add: built_def generated_def Let_def)

section \<open>Lemmas on the scene\<close>

lemma Math_round_nonneg: "0 \<le> x \<Longrightarrow> 0 \<le> Math_round x"
  by (simp add: Math_round_def)

lemma render_Inr:
  assumes "0 \<le> Math_round (particleCount (options w) * (1 - ratio (options w)))" (is "0 \<le> ?n1")
    and "0 \<le> Math_round (particleCount (options w) * ratio (options w))" (is "0 \<le> ?n2")
  shows "\<exists>w'. render w = Inr w' \<and>
           children w' = children w @ [\<lparr>geometry = Suc (Suc (fresh w)), material = fresh w\<rparr>,
                                       \<lparr>geometry = Suc (Suc (Suc (fresh w))), material = Suc (fresh w)\<rparr>] \<and>
           geometries w' = (geometries w)
             (Suc (Suc (fresh w)) \<mapsto> built (options w) (Math_random w) (drawn w) (scale w) (nat ?n1),
              Suc (Suc (Suc (fresh w))) \<mapsto> built (options w) (Math_random w) (drawn w + 6 * nat ?n1) (scale w) (nat ?n2)) \<and>
           snowMat w' = Some (fresh w) \<and> spriteMat w' = Some (Suc (fresh w)) \<and>
           options w' = options w \<and> scale w' = scale w \<and> disposed w' = disposed w \<and>
           fresh w' = Suc (Suc (Suc (Suc (fresh w)))) \<and> frame_requested w'"
  using assms
  by (simp add: render_def newParticleMaterial_def Let_def newParticleSystem_Inr tick_def
      add_def update_material_def)

section \<open>Lemmas on the resize handler\<close>

lemma rescaled_position [simp]:
  "attributes (rescaled s g) ''position'' = attributes g ''position''"
  by (simp add: rescaled_def setAttribute_def split: option.split)



lemma rescaled_idem [simp]: "rescaled s (rescaled s g) = rescaled s g"
  by (cases "attributes g ''position''") (simp_all add: rescaled_def setAttribute_def)

lemma rescale_Inr:
  assumes "geometries w (geometry c) = Some g" and "attributes g ''position'' = Some pos"
  shows "rescale c w =
           Inr (w\<lparr>geometries := (geometries w)(geometry c \<mapsto> rescaled (scale w) g)\<rparr>)"
  using assms
  by (simp add: rescale_def getAttribute_def Float32Array_def fill_def rescaled_def)

lemma rescale_children_Inr:
  assumes "\<forall>c\<in>set cs. particle_system w c"
  shows "rescale_children cs w =
           Inr (w\<lparr>geometries := (\<lambda>a. if a \<in> geometry ` set cs
                                     then map_option (rescaled (scale w)) (geometries w a)
                                     else geometries w a)\<rparr>)"
  using assms
proof (induction cs arbitrary: w)
  case Nil
  then show ?case by simp
next
  case (Cons c cs)
  from Cons.prems obtain g pos where g: "geometries w (geometry c) = Some g"
    and pos: "attributes g ''position'' = Some pos"
    by (auto simp: particle_system_def attribute_def getAttribute_def split: option.splits)
  let ?w1 = "w\<lparr>geometries := (geometries w)(geometry c \<mapsto> rescaled (scale w) g)\<rparr>"
  have "\<forall>c'\<in>set cs. particle_system ?w1 c'"
    using Cons.prems g pos
    by (auto simp: particle_system_def attribute_def getAttribute_def split: option.splits)
  from Cons.IH [OF this] have
    "rescale_children cs ?w1 =
       Inr (?w1\<lparr>geometries := (\<lambda>a. if a \<in> geometry ` set cs
                                   then map_option (rescaled (scale ?w1)) (geometries ?w1 a)
                                   else geometries ?w1 a)\<rparr>)" .
  moreover have "(\<lambda>a. if a \<in> geometry ` set cs
                      then map_option (rescaled (scale w)) (geometries ?w1 a)
                      else geometries ?w1 a) =
                 (\<lambda>a. if a \<in> geometry ` set (c # cs)
                      then map_option (rescaled (scale w)) (geometries w a)
                      else geometries w a)"
    using g by (auto simp: fun_eq_iff)
  ultimately show ?case
    by (simp add: rescale_Inr [OF g pos] cong: if_cong)
qed

lemma onWindowResize_Inr:
  assumes "\<forall>c\<in>set (children w). particle_system w c"
  shows "onWindowResize vw vh w =
           Inr (w\<lparr>windowWidth := vw, windowHeight := vh, scale := vh,
                  geometries := (\<lambda>a. if a \<in> geometry ` set (children w)
                                     then map_option (rescaled vh) (geometries w a)
                                     else geometries w a),
                  camera_aspect := vw / vh, renderer_size := Some (vw, vh)\<rparr>)"
proof -
  let ?w1 = "w\<lparr>windowWidth := vw, windowHeight := vh, scale := vh\<rparr>"
  have "\<forall>c\<in>set (children ?w1). particle_system ?w1 c"
    using assms by (simp add: particle_system_def attribute_def)
  from rescale_children_Inr [OF this] show ?thesis
    by (simp add: onWindowResize_def cong: if_cong)
qed


section \<open>Lemmas on the rebuild\<close>

lemma remove_children_eq:
  "remove_children w = w\<lparr>children := [], disposed := disposed w @ disposals (children w)\<rparr>"
proof (induction w rule: remove_children.induct)
  case (1 w)
  show ?case
  proof (cases "children w")
    case Nil
    then show ?thesis
      by (subst remove_children.simps) (simp add: disposals_def)
  next
    case (Cons c cs)
    with "1.IH" show ?thesis
      by (subst remove_children.simps) (simp add: disposals_def remove_def dispose_def)
  qed
qed


lemma disposals_Geometry: "Geometry a \<in> set (disposals cs) \<longleftrightarrow> a \<in> geometry ` set cs"
  by (induction cs) (auto simp: disposals_def)


section \<open>Lemmas on the shaders\<close>

lemma mod_glsl_bounds:
  assumes "0 < b"
  shows "0 \<le> mod_glsl a b" and "mod_glsl a b < b"
proof -
  have f: "of_int \<lfloor>a / b\<rfloor> \<le> a / b" "a / b < of_int \<lfloor>a / b\<rfloor> + 1"
    by linarith+
  from f(1) have "b * of_int \<lfloor>a / b\<rfloor> \<le> b * (a / b)"
    using assms by (intro mult_left_mono) simp_all
  then show "0 \<le> mod_glsl a b"
    using assms by (simp add: mod_glsl_def)
  from f(2) have "b * (a / b) < b * (of_int \<lfloor>a / b\<rfloor> + 1)"
    using assms by (intro mult_strict_left_mono) simp_all
  then show "mod_glsl a b < b"
    using assms by (simp add: mod_glsl_def algebra_simps)
qed

lemma mod_glsl_period:
  assumes "b \<noteq> 0"
  shows "mod_glsl (a + b) b = mod_glsl a b"
proof -
  have "(a + b) / b = a / b + 1"
    using assms by (simp add: add_divide_distrib)
  then have "\<lfloor>(a + b) / b\<rfloor> = \<lfloor>a / b\<rfloor> + 1"
    by simp
  then show ?thesis
    by (simp add: mod_glsl_def algebra_simps)
qed

section \<open>Lemmas on the script\<close>

lemma script_True_Inr:
  assumes "0 \<le> particleCount opts" and "0 \<le> ratio opts" and "ratio opts \<le> 1"
  shows "\<exists>w'. script True opts vw vh rnd pg =
                 Inr (pg\<lparr>body := body pg @ [StatsDom, RendererCanvas], app := Some w'\<rparr>)"
proof -
  let ?w = "snd (init (pg\<lparr>body := body pg @ [StatsDom]\<rparr>) (globals opts vw vh rnd))"
  have o: "options ?w = opts"
    by (simp add: init_def globals_def)
  have "0 \<le> particleCount opts * (1 - ratio opts)" "0 \<le> particleCount opts * ratio opts"
    using assms by simp_all
  then have "0 \<le> Math_round (particleCount opts * (1 - ratio opts))"
    "0 \<le> Math_round (particleCount opts * ratio opts)"
    by (simp_all add: Math_round_nonneg)
  with render_Inr [of ?w] obtain w' where "render ?w = Inr w'"
    unfolding o by blast
  then have "script True opts vw vh rnd pg =
               Inr (pg\<lparr>body := body pg @ [StatsDom, RendererCanvas], app := Some w'\<rparr>)"
    by (simp add: script_def Let_def split_beta init_def)
  then show ?thesis ..
qed

section \<open>Every reachable world is consistent\<close>

lemma after_simps [simp]: "after (Inl (e, w)) = w" "after (Inr w) = w"
  by (simp_all add: after_def)

lemma particle_system_built:
  "geometries w (geometry c) = Some (built opts rnd d sc m) \<Longrightarrow> particle_system w c"
  by (simp add: particle_system_def attribute_def getAttribute_def built_position)

lemma particle_system_cong:
  "geometries w' (geometry c) = geometries w (geometry c) \<Longrightarrow>
   particle_system w' c = particle_system w c"
  by (simp add: particle_system_def attribute_def)

lemma store_ok_frame:
  assumes "store_ok w" and "children w' = children w" and "geometries w' = geometries w"
    and "disposed w' = disposed w" and "fresh w \<le> fresh w'"
  shows "store_ok w'"
  using assms
  by (fastforce simp: store_ok_def allocated_def particle_system_def attribute_def)

lemma newParticleSystem_store:
  assumes "store_ok w" and "newParticleSystem mat n w = Inr (p, w')"
  shows "store_ok w'" and "particle_system w' p" and "geometry p < fresh w'"
    and "\<And>q. geometry q < fresh w \<Longrightarrow> particle_system w q \<Longrightarrow> particle_system w' q"
    and "fresh w \<le> fresh w'" and "children w' = children w" and "disposed w' = disposed w"
    and "snowMat w' = snowMat w" and "spriteMat w' = spriteMat w" and "options w' = options w"
proof -
  from assms(2) have n: "0 \<le> n"
    by (cases "0 \<le> n") (simp_all add: newParticleSystem_Inl)
  from assms(2) have p: "p = \<lparr>geometry = fresh w, material = mat\<rparr>"
    and w': "w' = w\<lparr>geometries := (geometries w)(fresh w \<mapsto>
                    built (options w) (Math_random w) (drawn w) (scale w) (nat n)),
                  fresh := Suc (fresh w), drawn := drawn w + 6 * nat n\<rparr>"
    by (simp_all add: newParticleSystem_Inr [OF n])
  show keep: "particle_system w' q" if "geometry q < fresh w" "particle_system w q" for q
    using that by (simp add: w' particle_system_def attribute_def)
  show "particle_system w' p"
    by (rule particle_system_built [of _ _ "options w" "Math_random w" "drawn w" "scale w" "nat n"])
      (simp add: w' p)
  show "store_ok w'"
    unfolding store_ok_def allocated_def
  proof (intro conjI ballI allI impI)
    fix c assume "c \<in> set (children w')"
    then have c: "c \<in> set (children w)" by (simp add: w')
    with assms(1) have "geometry c < fresh w" "particle_system w c"
      by (auto simp: store_ok_def allocated_def)
    then show "geometry c < fresh w'" "particle_system w' c"
      using keep by (simp_all add: w')
  next
    fix a assume "Geometry a \<in> set (disposed w')"
    with assms(1) show "a < fresh w'"
      by (auto simp: store_ok_def allocated_def w' less_Suc_eq)
  qed
  show "geometry p < fresh w'" "fresh w \<le> fresh w'" "children w' = children w"
    "disposed w' = disposed w" "snowMat w' = snowMat w" "spriteMat w' = spriteMat w"
    "options w' = options w"
    by (simp_all add: w' p)
qed

lemma add_store:
  assumes "store_ok w" and "particle_system w p" and "geometry p < fresh w"
  shows "store_ok (add p w)"
  using assms
  by (auto simp: store_ok_def allocated_def add_def particle_system_def attribute_def)

lemma tick_consistent:
  assumes "consistent w"
  shows "consistent (after (tick t w))"
proof -
  from assms obtain sm pm where m: "snowMat w = Some sm" "spriteMat w = Some pm"
    by (auto simp: consistent_def)
  from assms have "store_ok w"
    by (simp add: consistent_def)
  then have "store_ok (after (tick t w))"
    by (rule store_ok_frame) (simp_all add: tick_def m update_material_def)
  then show ?thesis
    by (simp add: consistent_def tick_def m update_material_def)
qed

lemma remove_children_store:
  assumes "store_ok w"
  shows "store_ok (remove_children w)"
  using assms
  by (auto simp: store_ok_def allocated_def remove_children_eq disposals_Geometry)

lemma newParticleMaterial_store:
  assumes "store_ok w" and "newParticleMaterial sz tex w = (m, w')"
  shows "store_ok w'" and "snowMat w' = snowMat w" and "spriteMat w' = spriteMat w"
    and "options w' = options w"
proof -
  from assms(2) have w': "w' = w\<lparr>materials := (materials w)(fresh w \<mapsto>
      \<lparr>uTime = 0, u_size = sz, u_rangeY = rangeY (options w), u_map = tex,
       u_alphaTest = alphaTest (options w), USE_SIZEATTENUATION = sizeAttenuation (options w),
       transparent = True, m_fog = fog (options w)\<rparr>), fresh := Suc (fresh w)\<rparr>"
    by (auto simp: newParticleMaterial_def Let_def)
  from assms(1) show "store_ok w'"
    by (rule store_ok_frame) (simp_all add: w')
  show "snowMat w' = snowMat w" "spriteMat w' = spriteMat w" "options w' = options w"
    by (simp_all add: w')
qed

lemma remakeSystem_consistent:
  assumes "consistent w"
  shows "consistent (after (remakeSystem w))"
proof -
  from assms obtain sm pm where m: "snowMat w = Some sm" "spriteMat w = Some pm"
    by (auto simp: consistent_def)
  let ?w0 = "remove_children w"
  let ?opts = "options ?w0"
  let ?w1 = "update_material sm (\<lambda>m. m\<lparr>u_rangeY := rangeY ?opts\<rparr>) ?w0"
  let ?w2 = "update_material pm (\<lambda>m. m\<lparr>u_rangeY := rangeY ?opts\<rparr>) ?w1"
  let ?n1 = "Math_round (particleCount ?opts * (1 - ratio ?opts))"
  let ?n2 = "Math_round (particleCount ?opts * ratio ?opts)"
  have m0: "snowMat ?w0 = Some sm" "spriteMat ?w1 = Some pm"
    by (simp_all add: remove_children_eq m update_material_def)
  have m2: "snowMat ?w2 = Some sm" "spriteMat ?w2 = Some pm"
    by (simp_all add: remove_children_eq m update_material_def)
  have "store_ok ?w0"
    using assms by (simp add: consistent_def remove_children_store)
  then have s2: "store_ok ?w2"
    by (rule store_ok_frame) (simp_all add: update_material_def)
  have r: "remakeSystem w =
             (case newParticleSystem sm ?n1 ?w2 of
                Inl e \<Rightarrow> Inl (e, ?w2)
              | Inr (p1, w3) \<Rightarrow>
                  (case newParticleSystem pm ?n2 (add p1 w3) of
                     Inl e \<Rightarrow> Inl (e, add p1 w3)
                   | Inr (p2, w5) \<Rightarrow> Inr (add p2 w5)))"
    by (simp add: remakeSystem_def Let_def m0 cong: sum.case_cong prod.case_cong)
  show ?thesis
  proof (cases "newParticleSystem sm ?n1 ?w2")
    case (Inl e)
    with s2 m2 show ?thesis
      by (simp add: r consistent_def)
  next
    case (Inr a)
    then obtain p1 w3 where 1: "newParticleSystem sm ?n1 ?w2 = Inr (p1, w3)"
      by (cases a) simp
    note n1 = newParticleSystem_store [OF s2 1]
    let ?w4 = "add p1 w3"
    have s4: "store_ok ?w4"
      using n1(1-3) by (rule add_store)
    have m4: "snowMat ?w4 = Some sm" "spriteMat ?w4 = Some pm"
      using n1(8,9) m2 by (simp_all add: add_def)
    show ?thesis
    proof (cases "newParticleSystem pm ?n2 ?w4")
      case (Inl e)
      with s4 m4 show ?thesis
        by (simp add: r 1 consistent_def)
    next
      case (Inr b)
      then obtain p2 w5 where 2: "newParticleSystem pm ?n2 ?w4 = Inr (p2, w5)"
        by (cases b) simp
      note n2 = newParticleSystem_store [OF s4 2]
      have "store_ok (add p2 w5)"
        using n2(1-3) by (rule add_store)
      moreover have "snowMat (add p2 w5) = Some sm" "spriteMat (add p2 w5) = Some pm"
        using n2(8,9) m4 by (simp_all add: add_def)
      ultimately show ?thesis
        by (simp add: r 1 2 consistent_def)
    qed
  qed
qed

lemma updateSprite_consistent:
  assumes "consistent w"
  shows "consistent (after (updateSprite w))"
proof -
  obtain sm w1 where 1: "newParticleMaterial (snowSize (options w)) (snowSprite w) w = (sm, w1)"
    by (cases "newParticleMaterial (snowSize (options w)) (snowSprite w) w")
  let ?w2 = "w1\<lparr>snowMat := Some sm\<rparr>"
  obtain pm w3 where 2: "newParticleMaterial (spriteSize (options w)) (sprite w1) ?w2 = (pm, w3)"
    by (cases "newParticleMaterial (spriteSize (options w)) (sprite w1) ?w2")
  from assms have "store_ok w"
    by (simp add: consistent_def)
  then have "store_ok w1"
    using 1 by (rule newParticleMaterial_store(1))
  then have "store_ok ?w2"
    by (rule store_ok_frame) simp_all
  then have "store_ok w3"
    using 2 by (rule newParticleMaterial_store(1))
  then have "store_ok (w3\<lparr>spriteMat := Some pm\<rparr>)"
    by (rule store_ok_frame) simp_all
  moreover have "snowMat w3 = Some sm"
    using newParticleMaterial_store(2) [OF \<open>store_ok ?w2\<close> 2] by simp
  ultimately have "consistent (w3\<lparr>spriteMat := Some pm\<rparr>)"
    by (simp add: consistent_def)
  then have "consistent (after (remakeSystem (w3\<lparr>spriteMat := Some pm\<rparr>)))"
    by (rule remakeSystem_consistent)
  then show ?thesis
    by (simp add: updateSprite_def Let_def 1 2)
qed

lemma store_ok_fields:
  "store_ok (set_options f w) = store_ok w"
  "store_ok (w\<lparr>background := b\<rparr>) = store_ok w"
  "store_ok (w\<lparr>scene_fog := g\<rparr>) = store_ok w"
  "store_ok (w\<lparr>camera_z := z\<rparr>) = store_ok w"
  by (simp_all add: store_ok_def allocated_def particle_system_def attribute_def set_options_def)

lemma set_options_consistent:
  "consistent w \<Longrightarrow> consistent (set_options f w)"
  by (simp add: consistent_def store_ok_fields) (simp add: set_options_def)

lemma onChange_consistent:
  assumes "consistent w"
  shows "consistent (after (onChange ch w))"
proof -
  have simple: "consistent (set_options f w\<lparr>background := b\<rparr>)"
    "consistent (set_options f w\<lparr>background := b, scene_fog := g\<rparr>)"
    "consistent (set_options f w\<lparr>scene_fog := g\<rparr>)"
    "consistent (set_options f w\<lparr>camera_z := z\<rparr>)" for f b g z
    using assms by (simp_all add: consistent_def store_ok_fields) (simp_all add: set_options_def)
  show ?thesis
    by (cases ch)
      (simp_all add: Let_def simple remakeSystem_consistent updateSprite_consistent
        set_options_consistent [OF assms])
qed

lemma onWindowResize_consistent:
  assumes "consistent w"
  shows "consistent (after (onWindowResize vw vh w))"
proof -
  from assms have p: "\<forall>c\<in>set (children w). particle_system w c"
    by (simp add: consistent_def store_ok_def)
  have "particle_system w c \<Longrightarrow>
        particle_system (w\<lparr>windowWidth := vw, windowHeight := vh, scale := vh,
          geometries := (\<lambda>a. if a \<in> geometry ` set (children w)
                             then map_option (rescaled vh) (geometries w a)
                             else geometries w a),
          camera_aspect := vw / vh, renderer_size := Some (vw, vh)\<rparr>) c" for c
    by (auto simp: particle_system_def attribute_def getAttribute_def split: option.splits)
  with assms show ?thesis
    by (simp add: onWindowResize_Inr [OF p] consistent_def store_ok_def allocated_def)
qed

lemma render_consistent:
  assumes "store_ok w"
  shows "consistent (after (render w))"
proof -
  let ?opts = "options w"
  let ?w1 = "w\<lparr>background := Some (backgroundColor ?opts)\<rparr>"
  let ?w2 = "if fog ?opts
             then ?w1\<lparr>scene_fog := Some (backgroundColor ?opts, fogRange ?opts, fogRange ?opts * 2)\<rparr>
             else ?w1"
  let ?w4 = "?w2\<lparr>camera_z := cameraPositionZ ?opts,
                 snowSprite := Some (snowSpritePath ?opts), sprite := Some (spritePath ?opts)\<rparr>"
  let ?n1 = "Math_round (particleCount ?opts * (1 - ratio ?opts))"
  let ?n2 = "Math_round (particleCount ?opts * ratio ?opts)"
  obtain sm w5 where 5: "newParticleMaterial (snowSize ?opts) (Some (snowSpritePath ?opts)) ?w4 = (sm, w5)"
    by (cases "newParticleMaterial (snowSize ?opts) (Some (snowSpritePath ?opts)) ?w4")
  let ?w6 = "w5\<lparr>snowMat := Some sm\<rparr>"
  obtain pm w7 where 7: "newParticleMaterial (spriteSize ?opts) (sprite w5) ?w6 = (pm, w7)"
    by (cases "newParticleMaterial (spriteSize ?opts) (sprite w5) ?w6")
  let ?w8 = "w7\<lparr>spriteMat := Some pm\<rparr>"
  have "store_ok ?w4"
    using assms by (rule store_ok_frame) simp_all
  then have s5: "store_ok w5"
    using 5 by (rule newParticleMaterial_store(1))
  then have s6: "store_ok ?w6"
    by (rule store_ok_frame) simp_all
  then have "store_ok w7"
    using 7 by (rule newParticleMaterial_store(1))
  then have s8: "store_ok ?w8"
    by (rule store_ok_frame) simp_all
  have o: "options w5 = ?opts" "options w7 = ?opts"
    using newParticleMaterial_store(4) [OF \<open>store_ok ?w4\<close> 5]
      newParticleMaterial_store(4) [OF s6 7] by simp_all
  have m8: "snowMat ?w8 = Some sm" "spriteMat ?w8 = Some pm"
    using newParticleMaterial_store(2) [OF s6 7] by simp_all
  have r: "render w =
             (case newParticleSystem sm ?n1 ?w8 of
                Inl e \<Rightarrow> Inl (e, ?w8)
              | Inr (p1, w9) \<Rightarrow>
                  (case newParticleSystem pm ?n2 w9 of
                     Inl e \<Rightarrow> Inl (e, w9)
                   | Inr (p2, w10) \<Rightarrow> tick 0 (add p2 (add p1 w10))))"
    by (simp add: render_def Let_def 5 7 o cong: sum.case_cong prod.case_cong)
  show ?thesis
  proof (cases "newParticleSystem sm ?n1 ?w8")
    case (Inl e)
    with s8 m8 show ?thesis
      by (simp add: r consistent_def)
  next
    case (Inr a)
    then obtain p1 w9 where 1: "newParticleSystem sm ?n1 ?w8 = Inr (p1, w9)"
      by (cases a) simp
    note n1 = newParticleSystem_store [OF s8 1]
    have m9: "snowMat w9 = Some sm" "spriteMat w9 = Some pm"
      using n1(8,9) m8 by simp_all
    show ?thesis
    proof (cases "newParticleSystem pm ?n2 w9")
      case (Inl e)
      with n1(1) m9 show ?thesis
        by (simp add: r 1 consistent_def)
    next
      case (Inr b)
      then obtain p2 w10 where 2: "newParticleSystem pm ?n2 w9 = Inr (p2, w10)"
        by (cases b) simp
      note n2 = newParticleSystem_store [OF n1(1) 2]
      have "particle_system w10 p1" "geometry p1 < fresh w10"
        using n2(4) [OF n1(3) n1(2)] n1(3) n2(5) by simp_all
      with n2(1) have "store_ok (add p1 w10)"
        by (rule add_store)
      moreover have "particle_system (add p1 w10) p2" "geometry p2 < fresh (add p1 w10)"
        using n2(2,3) by (simp_all add: add_def particle_system_def attribute_def)
      ultimately have "store_ok (add p2 (add p1 w10))"
        by (rule add_store)
      moreover have "snowMat (add p2 (add p1 w10)) = Some sm"
        "spriteMat (add p2 (add p1 w10)) = Some pm"
        using n2(8,9) m9 by (simp_all add: add_def)
      ultimately have "consistent (add p2 (add p1 w10))"
        by (simp add: consistent_def)
      then have "consistent (after (tick 0 (add p2 (add p1 w10))))"
        by (rule tick_consistent)
      then show ?thesis
        by (simp add: r 1 2)
    qed
  qed
qed

lemma init_store_ok: "store_ok (snd (init pg (globals opts vw vh rnd)))"
  by (simp add: store_ok_def allocated_def init_def globals_def)

lemma reachable_consistent: "reachable w \<Longrightarrow> consistent w"
proof (induction rule: reachable.induct)
  case (started pg opts vw vh rnd)
  show ?case
    using init_store_ok by (rule render_consistent)
next
  case (ticked w t)
  then show ?case by (simp add: tick_consistent)
next
  case (resized w vw vh)
  then show ?case by (simp add: onWindowResize_consistent)
next
  case (changed w ch)
  then show ?case by (simp add: onChange_consistent)
qed

lemma reachable_particle_systems:
  "reachable w \<Longrightarrow> \<forall>c\<in>set (children w). particle_system w c"
  by (drule reachable_consistent) (simp add: consistent_def store_ok_def)

lemma reachable_allocated:
  "reachable w \<Longrightarrow> allocated w \<and> snowMat w \<noteq> None \<and> spriteMat w \<noteq> None"
  by (drule reachable_consistent) (simp add: consistent_def store_ok_def)

lemma reachable_rendered: "reachable rendered"
  unfolding rendered_def by (rule reachable.started)

lemma script_reachable:
  "case script True opts vw vh rnd pg of
     Inl (e, pg') \<Rightarrow> \<exists>w. app pg' = Some w \<and> reachable w
   | Inr pg' \<Rightarrow> \<exists>w. app pg' = Some w \<and> reachable w"
proof -
  let ?pg = "pg\<lparr>body := body pg @ [StatsDom]\<rparr>"
  have "reachable (after (render (snd (init ?pg (globals opts vw vh rnd)))))"
    by (rule reachable.started)
  then show ?thesis
    by (cases "render (snd (init ?pg (globals opts vw vh rnd)))")
      (auto simp: script_def Let_def split_beta)
qed

section \<open>The claims\<close>















text \<open>
  Claim C7. The fragment stage discards a fragment exactly when the alpha of the
  texture at the point coordinate is strictly below \<^verbatim>\<open>alphaTest\<close>; so with
  \<^verbatim>\<open>alphaTest = 0\<close> no fragment is discarded, the alpha of a texture being at
  least 0.
\<close>

theorem fragment_discard:
  "(fragment_main texture2D t c fog_fragment = None \<longleftrightarrow> alpha (texture2D c) < t) \<and>
   (0 \<le> alpha (texture2D c) \<longrightarrow> fragment_main texture2D 0 c fog_fragment \<noteq> None)"
  by (simp add: fragment_main_def Let_def)

theorem fragment_discard_witness:
  "fragment_main (\<lambda>p. (1, 1, 1, 1 / 2)) (85 / 100) (0, 0) id = None \<and>
   fragment_main (\<lambda>p. (1, 1, 1, 9 / 10)) (85 / 100) (0, 0) id = Some (1, 1, 1, 9 / 10) \<and>
   (0::real) \<le> alpha (1, 1, 1, 0) \<and>
   fragment_main (\<lambda>p. (1, 1, 1, 0)) 0 (0, 0) id \<noteq> None"
  using fragment_discard [of "\<lambda>p. (1, 1, 1, 1 / 2)" "85 / 100" "(0, 0)" id]
    fragment_discard [of "\<lambda>p. (1, 1, 1, 0)" 0 "(0, 0)" id]
  by (simp add: alpha_def fragment_main_def)

text \<open>
  Claim C8. For a range \<open>R > 0\<close> the vertex stage moves the X coordinate by the
  product of a sine and a cosine of \<^verbatim>\<open>uTime * angle\<close> scaled by the amplitude,
  and sets the Y coordinate to \<^verbatim>\<open>position.y + uTime * velocityY * 10\<close> wrapped
  modulo \<open>R\<close> and shifted down by \<open>R / 2\<close>: a start higher by \<open>R\<close> gives the same
  result, and the displaced Y lies within \<open>[-R / 2, R / 2]\<close> for every time and
  particle. The displaced position is what the two matrices are applied to.
\<close>

theorem vertex_displacement:
  assumes "0 < R"
  shows "newPos t R (px, py, pz) v a ang =
           (px + sin (t * ang) * cos (t * 2 * ang) * (a * 10),
            mod_glsl (py + t * v * 10) R - R / 2,
            pz) \<and>
         fst (snd (newPos t R (px, py + R, pz) v a ang)) =
           fst (snd (newPos t R (px, py, pz) v a ang)) \<and>
         - R / 2 \<le> fst (snd (newPos t R (px, py, pz) v a ang)) \<and>
         fst (snd (newPos t R (px, py, pz) v a ang)) \<le> R / 2 \<and>
         fst (vertex_main P MV att t sz R (px, py, pz) sc v a ang) =
           (case newPos t R (px, py, pz) v a ang of
              (nx, ny, nz) \<Rightarrow> mat4_times P (mat4_times MV (nx, ny, nz, 1)))"
proof -
  have "mod_glsl (py + R + t * v * 10) R = mod_glsl (py + t * v * 10) R"
    using mod_glsl_period [of R "py + t * v * 10"] assms by (simp add: algebra_simps)
  moreover note mod_glsl_bounds [OF assms, of "py + t * v * 10"]
  ultimately show ?thesis
    by (simp add: newPos_def vertex_main_def Let_def split_beta)
qed

theorem vertex_displacement_witness:
  "newPos 3 400 (10, 150, - 5) (- 2) 4 0 = (10, - 110, - 5) \<and>
   - 400 / 2 \<le> fst (snd (newPos 3 400 (10, 150, - 5) (- 2) 4 0)) \<and>
   fst (snd (newPos 3 400 (10, 150, - 5) (- 2) 4 0)) \<le> (400 / 2 :: real)"
  using vertex_displacement [of 400 3 10 150 "- 5" "- 2" 4 0]
  by (simp add: mod_glsl_def)

text \<open>
  Claim C9. When the capability check fails and the document has the container
  element, the script returns without an exception and changes nothing but the
  container, to which it appends the message element: the variables of the scene,
  the camera and the renderer stay undefined, and with them no particle system, no
  listener and no animation frame exist. When the check succeeds the container is
  left as it was, whether the script completes or throws, and the variables are
  defined.
\<close>

theorem capability_check_gates_startup:
  "(container pg = Some els \<longrightarrow>
      script False opts vw vh rnd pg = Inr (pg\<lparr>container := Some (els @ [WebGLErrorMessage])\<rparr>) \<and>
      app (pg\<lparr>container := Some (els @ [WebGLErrorMessage])\<rparr>) = app pg \<and>
      body (pg\<lparr>container := Some (els @ [WebGLErrorMessage])\<rparr>) = body pg) \<and>
   (case script True opts vw vh rnd pg of
      Inl (e, pg') \<Rightarrow> container pg' = container pg \<and> app pg' \<noteq> None
    | Inr pg' \<Rightarrow> container pg' = container pg \<and> app pg' \<noteq> None)"
  by (simp add: script_def init_def Let_def split_beta split: sum.split prod.split)

theorem capability_check_gates_startup_witness:
  "script False default_options 800 600 (\<lambda>k. 1 / 2) blank_page =
     Inr \<lparr>container = Some [WebGLErrorMessage], body = [], app = None\<rparr> \<and>
   (\<exists>w'. script True default_options 800 600 (\<lambda>k. 1 / 2) blank_page =
           Inr \<lparr>container = Some [], body = [StatsDom, RendererCanvas], app = Some w'\<rparr>)"
proof -
  have "0 \<le> particleCount default_options" "0 \<le> ratio default_options"
    "ratio default_options \<le> 1"
    by (simp_all add: default_options_def)
  from script_True_Inr [OF this, of 800 600 "\<lambda>k. 1 / 2" blank_page]
    capability_check_gates_startup [of blank_page "[]" default_options 800 600 "\<lambda>k. 1 / 2"]
  show ?thesis
    by (simp add: blank_page_def)
qed

text \<open>
  Claim C10. For every call of \<open>newParticleSystem\<close> with a count \<open>n \<ge> 0\<close> the call
  returns, and the attributes of the geometry agree: \<^verbatim>\<open>position\<close> holds \<open>3 * n\<close>
  numbers with item size 3, and \<^verbatim>\<open>scale\<close>, \<^verbatim>\<open>velocityY\<close>, \<^verbatim>\<open>amplitudeX\<close> and
  \<^verbatim>\<open>angle\<close> hold \<open>n\<close> numbers each with item size 1, so every attribute
  reports the count \<open>n\<close>.
\<close>

theorem attribute_counts_agree:
  assumes "0 \<le> n"
  shows "\<exists>p w' pos sc vel amp ang.
           newParticleSystem mat n w = Inr (p, w') \<and>
           attribute w' p ''position'' = Some pos \<and>
           length (array pos) = 3 * nat n \<and> itemSize pos = 3 \<and> count pos = nat n \<and>
           attribute w' p ''scale'' = Some sc \<and>
           length (array sc) = nat n \<and> itemSize sc = 1 \<and> count sc = nat n \<and>
           attribute w' p ''velocityY'' = Some vel \<and>
           length (array vel) = nat n \<and> itemSize vel = 1 \<and> count vel = nat n \<and>
           attribute w' p ''amplitudeX'' = Some amp \<and>
           length (array amp) = nat n \<and> itemSize amp = 1 \<and> count amp = nat n \<and>
           attribute w' p ''angle'' = Some ang \<and>
           length (array ang) = nat n \<and> itemSize ang = 1 \<and> count ang = nat n"
proof -
  obtain p w' where "newParticleSystem mat n w = Inr (p, w')"
    and "\<And>name. attribute w' p name = attributes (built (options w) (Math_random w) (drawn w) (scale w) (nat n)) name"
    using attribute_new [OF assms] by blast
  then show ?thesis
    by (simp add: built_position built_scale built_velocityY built_amplitudeX built_angle
        Float32BufferAttribute_def concat_triples_length sample_position_def)
qed

theorem attribute_counts_agree_witness:
  "(0::int) \<le> 2 \<and>
   (\<exists>p w' pos sc vel amp ang.
           newParticleSystem 7 2 demo = Inr (p, w') \<and>
           attribute w' p ''position'' = Some pos \<and>
           length (array pos) = 6 \<and> itemSize pos = 3 \<and> count pos = 2 \<and>
           attribute w' p ''scale'' = Some sc \<and>
           length (array sc) = 2 \<and> itemSize sc = 1 \<and> count sc = 2 \<and>
           attribute w' p ''velocityY'' = Some vel \<and>
           length (array vel) = 2 \<and> itemSize vel = 1 \<and> count vel = 2 \<and>
           attribute w' p ''amplitudeX'' = Some amp \<and>
           length (array amp) = 2 \<and> itemSize amp = 1 \<and> count amp = 2 \<and>
           attribute w' p ''angle'' = Some ang \<and>
           length (array ang) = 2 \<and> itemSize ang = 1 \<and> count ang = 2)"
  using attribute_counts_agree [of 2 7 demo] by simp

end
